theory Spec2Isabelle
  imports Complex_Main
begin

section \<open>The piano-roll core of \<open>EditorCanvas.tsx\<close>\<close>

text \<open>
  The embedding follows \<open>src/components/EditorCanvas.tsx\<close> and the two tables it imports
  from the constants module. JavaScript numbers that only ever hold grid rows, MIDI numbers
  and grid times are integers here; a number that can be \<open>NaN\<close> is an \<open>option\<close> with
  \<open>None\<close> for \<open>NaN\<close>. Seconds, pixels and frequencies are reals, so the rounding of
  IEEE doubles is not part of the model. Strings are lists of 8-bit characters; the
  regular expression and the case conversions of the source only ever inspect or produce
  ASCII characters, so a character outside ASCII is simply one that matches nothing.
\<close>

subsection \<open>Constants\<close>

definition PIXELS_PER_UNIT :: real where
  "PIXELS_PER_UNIT = 32"

definition ROW_HEIGHT :: real where
  "ROW_HEIGHT = 20"

definition TEMPO_BPM :: real where
  "TEMPO_BPM = 120"

definition SECONDS_PER_BEAT :: real where
  "SECONDS_PER_BEAT = 60 / TEMPO_BPM"

definition QUARTER_DURATION :: real where
  "QUARTER_DURATION = 4"

definition PIXELS_PER_SECOND :: real where
  "PIXELS_PER_SECOND = (PIXELS_PER_UNIT * 16) / (SECONDS_PER_BEAT * 4)"

definition TOTAL_ROWS :: int where
  "TOTAL_ROWS = 85"

definition START_MIDI :: int where
  "START_MIDI = 108"

subsection \<open>Row to pitch name\<close>

type_synonym jsnum = "int option"

definition noteNames :: "string list" where
  "noteNames = [''C'', ''C#'', ''D'', ''D#'', ''E'', ''F'', ''F#'', ''G'', ''G#'', ''A'', ''A#'', ''B'']"

text \<open>The remainder operator of JavaScript truncates: its sign is the sign of the dividend.\<close>

definition js_rem :: "int \<Rightarrow> int \<Rightarrow> int" where
  "js_rem a b = (if 0 \<le> a then a mod \<bar>b\<bar> else - ((- a) mod \<bar>b\<bar>))"

definition digit_char :: "nat \<Rightarrow> char" where
  "digit_char d = ''0123456789'' ! d"

fun show_nat :: "nat \<Rightarrow> string" where
  "show_nat n = (if n < 10 then [digit_char n] else show_nat (n div 10) @ [digit_char (n mod 10)])"

declare show_nat.simps [simp del]

text \<open>What a template literal prints for an integer.\<close>

definition show_int :: "int \<Rightarrow> string" where
  "show_int i = (if i < 0 then CHR ''-'' # show_nat (nat (- i)) else show_nat (nat i))"

text \<open>
  \<open>getPitchFromRow\<close>, lines 23 to 29. An index outside the array reads \<open>undefined\<close>, which
  the template literal prints as the word; \<open>Math.floor(midiNote / 12)\<close> is the floored
  quotient, which is \<open>div\<close> on \<open>int\<close>.
\<close>

definition getPitchFromRow :: "int \<Rightarrow> string" where
  "getPitchFromRow row =
     (let midiNote = START_MIDI - row;
          idx = js_rem midiNote 12;
          name = (if 0 \<le> idx \<and> idx < 12 then noteNames ! nat idx else ''undefined'');
          octave = midiNote div 12 - 1
      in name @ show_int octave)"

subsection \<open>Pitch name to row\<close>

text \<open>
  The pattern \<open>/([A-G][#b]?)([0-9])/i\<close> is not anchored: \<open>String.prototype.match\<close> returns
  its leftmost occurrence. Under the \<open>i\<close> flag the first class accepts both cases of the
  seven letters and the second class accepts \<open>#\<close>, \<open>b\<close> and \<open>B\<close>. The optional accidental is
  tried first; since no accidental is a digit, giving it up is the only other way to match
  at the same position.
\<close>

definition is_letter :: "char \<Rightarrow> bool" where
  "is_letter c = (c \<in> set ''ABCDEFGabcdefg'')"

definition is_accidental :: "char \<Rightarrow> bool" where
  "is_accidental c = (c \<in> set ''#bB'')"

definition is_digit :: "char \<Rightarrow> bool" where
  "is_digit c = (c \<in> set ''0123456789'')"

fun match_here :: "string \<Rightarrow> (string \<times> char) option" where
  "match_here (l # a # d # rest) =
     (if is_letter l \<and> is_accidental a \<and> is_digit d then Some ([l, a], d)
      else if is_letter l \<and> is_digit a then Some ([l], a)
      else None)"
| "match_here [l, d] = (if is_letter l \<and> is_digit d then Some ([l], d) else None)"
| "match_here _ = None"

fun regex_match :: "string \<Rightarrow> (string \<times> char) option" where
  "regex_match [] = None"
| "regex_match (c # cs) =
     (case match_here (c # cs) of Some m \<Rightarrow> Some m | None \<Rightarrow> regex_match cs)"

text \<open>
  The words of the pitch grammar, a letter, an optional accidental and one octave digit,
  as the pattern reads them.
\<close>

fun grammar :: "string \<Rightarrow> bool" where
  "grammar [l, d] = (is_letter l \<and> is_digit d)"
| "grammar [l, a, d] = (is_letter l \<and> is_accidental a \<and> is_digit d)"
| "grammar _ = False"

definition upper_char :: "char \<Rightarrow> char" where
  "upper_char c =
     (case map_of (zip ''abcdefghijklmnopqrstuvwxyz'' ''ABCDEFGHIJKLMNOPQRSTUVWXYZ'') c of
        Some u \<Rightarrow> u
      | None \<Rightarrow> c)"

definition toUpperCase :: "string \<Rightarrow> string" where
  "toUpperCase s = map upper_char s"

text \<open>\<open>parseInt(match[2], 10)\<close> on the one digit the second group holds.\<close>

definition parseInt :: "char \<Rightarrow> int" where
  "parseInt d =
     (case map_of (zip ''0123456789'' [0, 1, 2, 3, 4, 5, 6, 7, 8, 9]) d of
        Some v \<Rightarrow> v
      | None \<Rightarrow> 0)"

definition accidentalMap :: "string \<rightharpoonup> string" where
  "accidentalMap =
     map_of [(''DB'', ''C#''), (''EB'', ''D#''), (''GB'', ''F#''), (''AB'', ''G#''), (''BB'', ''A#'')]"

text \<open>
  \<open>PITCH_MAP\<close> of the constants module. The keys looked up are a capital letter, or a
  capital letter followed by \<open>B\<close>; none of them names a member that an object literal
  inherits, so the table is the finite map of its own entries.
\<close>

definition PITCH_MAP :: "string \<rightharpoonup> int" where
  "PITCH_MAP =
     map_of [(''C'', 0), (''C#'', 1), (''D'', 2), (''D#'', 3), (''E'', 4), (''F'', 5),
             (''F#'', 6), (''G'', 7), (''G#'', 8), (''A'', 9), (''A#'', 10), (''B'', 11)]"

text \<open>\<open>name.replace('#', '')\<close> drops the first \<open>#\<close> only.\<close>

fun replace_first :: "char \<Rightarrow> string \<Rightarrow> string" where
  "replace_first x [] = []"
| "replace_first x (c # cs) = (if c = x then cs else c # replace_first x cs)"

text \<open>
  \<open>getRowFromPitch\<close>, lines 31 to 41. A name that is not a key of \<open>PITCH_MAP\<close> (\<open>CB\<close>,
  \<open>FB\<close>) reads \<open>undefined\<close>, and \<open>undefined + 0\<close> is \<open>NaN\<close>.
\<close>

definition getRowFromPitch :: "string \<Rightarrow> jsnum" where
  "getRowFromPitch pitch =
     (case regex_match pitch of
        None \<Rightarrow> Some 0
      | Some (g1, g2) \<Rightarrow>
          (let name0 = toUpperCase g1;
               octave = parseInt g2;
               name = (case accidentalMap name0 of Some n \<Rightarrow> n | None \<Rightarrow> name0)
           in case PITCH_MAP (replace_first CHR ''#'' name) of
                None \<Rightarrow> None
              | Some v \<Rightarrow>
                  (let noteValue = v + (if CHR ''#'' \<in> set name then 1 else 0);
                       midiNote = (octave + 1) * 12 + noteValue
                   in Some (START_MIDI - midiNote))))"

text \<open>\<open>getFrequencyFromPitch\<close>, lines 43 to 47, over the reals.\<close>

definition getFrequencyFromPitch :: "string \<Rightarrow> real option" where
  "getFrequencyFromPitch pitch =
     (case getRowFromPitch pitch of
        None \<Rightarrow> None
      | Some row \<Rightarrow>
          (let midiNote = START_MIDI - row
           in Some (440 * 2 powr (real_of_int (midiNote - 69) / 12))))"

subsection \<open>Durations\<close>

text \<open>
  What reading a property of an object literal can give: nothing, a number of the table,
  or a member that every object literal inherits from \<open>Object.prototype\<close> (a function, or
  the prototype itself for \<open>__proto__\<close>). The inherited members are those of the
  ECMAScript standard; each of them is truthy and none is a number.
\<close>

datatype jsval = Undefined | Number int | Inherited

definition Object_prototype :: "string list" where
  "Object_prototype =
     [''constructor'', ''hasOwnProperty'', ''isPrototypeOf'', ''propertyIsEnumerable'',
      ''toLocaleString'', ''toString'', ''valueOf'', ''__proto__'',
      ''__defineGetter__'', ''__defineSetter__'', ''__lookupGetter__'', ''__lookupSetter__'']"

text \<open>\<open>DURATION_MAP[key]\<close> on the table of the constants module, lines 46 to 51.\<close>

definition DURATION_MAP :: "string \<Rightarrow> jsval" where
  "DURATION_MAP key =
     (case map_of [(''whole'', 16), (''half'', 8), (''quarter'', 4), (''eighth'', 2)] key of
        Some v \<Rightarrow> Number v
      | None \<Rightarrow> if key \<in> set Object_prototype then Inherited else Undefined)"

text \<open>
  The expression \<open>DURATION_MAP[note.duration] || 4\<close>, which the source writes out at each
  of its three uses (lines 118, 165 and 324): a falsy left operand gives 4.
\<close>

definition durationUnits :: "string \<Rightarrow> jsval" where
  "durationUnits d =
     (case DURATION_MAP d of
        Undefined \<Rightarrow> Number 4
      | Number v \<Rightarrow> if v = 0 then Number 4 else Number v
      | Inherited \<Rightarrow> Inherited)"

text \<open>The factor \<open>SECONDS_PER_BEAT / 4\<close> that turns grid units into seconds.\<close>

definition secondsOf :: "real \<Rightarrow> real" where
  "secondsOf units = units * (SECONDS_PER_BEAT / 4)"

subsection \<open>Notes and the editor\<close>

text \<open>
  The declared type of \<open>duration\<close> is a union of four literals, but notes also arrive as
  parsed JSON whose schema gives \<open>duration\<close> as a plain string, so the field is a string.
\<close>

record Note =
  pitch :: string
  duration :: string
  instrument :: string
  time :: int

datatype wave = Triangle | Sawtooth

text \<open>
  An oscillator as \<open>playNote\<close> sets it up: the arguments handed to the audio engine are
  recorded, not interpreted, and what the engine does with an argument that is \<open>NaN\<close> is
  outside the model. \<open>ended\<close> says that the oscillator has already stopped by itself; the
  audio clock sets it, the code never reads it.
\<close>

record voice =
  oscType :: wave
  frequency :: "real option"
  startAt :: real
  stopAt :: "real option"
  ended :: bool

text \<open>
  The component's state, its \<open>notes\<close> prop and the animation-frame callback the browser
  holds for it: \<open>frame\<close> is the identifier of the pending \<open>animate\<close> callback together
  with the \<open>totalDurationSeconds\<close> its closure captured, and \<open>rafNext\<close> is the identifier
  the browser hands out next (identifiers are positive).
\<close>

record editor =
  "notes" :: "Note list"
  isPlaying :: bool
  playheadPos :: real
  hoveredCell :: "(int \<times> int) option"
  audioCtx :: bool
  animationRef :: "nat option"
  startTimeRef :: real
  activeSources :: "voice list"
  frame :: "(nat \<times> real) option"
  rafNext :: nat

definition initial :: "Note list \<Rightarrow> editor" where
  "initial ns =
     \<lparr>notes = ns, isPlaying = False, playheadPos = 0, hoveredCell = None, audioCtx = False,
      animationRef = None, startTimeRef = 0, activeSources = [], frame = None, rafNext = 1\<rparr>"

subsection \<open>Editing\<close>

fun findIndex :: "('a \<Rightarrow> bool) \<Rightarrow> 'a list \<Rightarrow> nat option" where
  "findIndex P [] = None"
| "findIndex P (x # xs) = (if P x then Some 0 else map_option Suc (findIndex P xs))"

text \<open>\<open>splice(i, 1)\<close> on a copy of the array.\<close>

definition splice1 :: "nat \<Rightarrow> 'a list \<Rightarrow> 'a list" where
  "splice1 i xs = take i xs @ drop (Suc i) xs"

text \<open>Lines 191 to 205 of \<open>handleCanvasClick\<close>: the list handed to \<open>onManualNotesChange\<close>.\<close>

definition toggle :: "string \<Rightarrow> int \<Rightarrow> Note list \<Rightarrow> Note list" where
  "toggle pitchAtRow timeAtCol ns =
     (case findIndex (\<lambda>n. pitch n = pitchAtRow \<and> time n = timeAtCol) ns of
        Some existingIndex \<Rightarrow> splice1 existingIndex ns
      | None \<Rightarrow>
          ns @ [\<lparr>pitch = pitchAtRow, duration = ''quarter'', instrument = ''Lead'',
                 time = timeAtCol\<rparr>])"

text \<open>
  \<open>handleCanvasClick\<close>, lines 185 to 206; the parent's \<open>onManualNotesChange\<close> stores the
  list it is given as the new \<open>notes\<close> prop.
\<close>

definition handleCanvasClick :: "editor \<Rightarrow> editor" where
  "handleCanvasClick s =
     (case hoveredCell s of
        None \<Rightarrow> s
      | Some (row, col) \<Rightarrow> s\<lparr>notes := toggle (getPitchFromRow row) col (notes s)\<rparr>)"

text \<open>
  \<open>handleMouseMove\<close>, lines 208 to 222, for a pointer at \<open>(x, y)\<close> relative to the
  mounted workspace.
\<close>

definition handleMouseMove :: "real \<Rightarrow> real \<Rightarrow> editor \<Rightarrow> editor" where
  "handleMouseMove x y s =
     (let row = \<lfloor>y / ROW_HEIGHT\<rfloor>;
          col = \<lfloor>x / PIXELS_PER_UNIT\<rfloor>
      in if row \<ge> 0 \<and> row < TOTAL_ROWS then s\<lparr>hoveredCell := Some (row, col)\<rparr>
         else s\<lparr>hoveredCell := None\<rparr>)"

subsection \<open>Playback\<close>

definition lower_char :: "char \<Rightarrow> char" where
  "lower_char c =
     (case map_of (zip ''ABCDEFGHIJKLMNOPQRSTUVWXYZ'' ''abcdefghijklmnopqrstuvwxyz'') c of
        Some l \<Rightarrow> l
      | None \<Rightarrow> c)"

definition toLowerCase :: "string \<Rightarrow> string" where
  "toLowerCase s = map lower_char s"

fun "includes" :: "string \<Rightarrow> string \<Rightarrow> bool" where
  "includes [] sub = (sub = [])"
| "includes (c # cs) sub = (take (length sub) (c # cs) = sub \<or> includes cs sub)"

text \<open>
  \<open>playNote\<close>, lines 116 to 143, on the list \<open>activeSources.current\<close>. A product with a
  value that is not a number is \<open>NaN\<close>, and \<open>NaN <= 0\<close> is false.
\<close>

definition playNote :: "Note \<Rightarrow> real \<Rightarrow> voice list \<Rightarrow> voice list" where
  "playNote n startTime sources =
     (let freq = getFrequencyFromPitch (pitch n);
          dur = (case durationUnits (duration n) of
                   Number u \<Rightarrow> Some (real_of_int u * (SECONDS_PER_BEAT / QUARTER_DURATION))
                 | _ \<Rightarrow> None)
      in if (case freq of Some f \<Rightarrow> f \<le> 0 | None \<Rightarrow> False) then sources
         else sources @
           [\<lparr>oscType = (if includes (toLowerCase (instrument n)) ''bass'' then Triangle
                        else Sawtooth),
             frequency = freq,
             startAt = startTime,
             stopAt = map_option (\<lambda>d. startTime + d) dur,
             ended = False\<rparr>])"

text \<open>
  The \<open>forEach\<close> of lines 161 to 167, threading \<open>activeSources.current\<close> and \<open>maxTime\<close>.
  With a duration that is not a number, \<open>note.time + \<dots>\<close> is a string that converts
  to \<open>NaN\<close>, so the comparison with \<open>maxTime\<close> is false.
\<close>

fun schedule :: "real \<Rightarrow> Note list \<Rightarrow> voice list \<times> int \<Rightarrow> voice list \<times> int" where
  "schedule now [] acc = acc"
| "schedule now (n # ns) (sources, maxTime) =
     (let scheduledStart = now + secondsOf (real_of_int (time n));
          sources' = playNote n scheduledStart sources;
          maxTime' = (case durationUnits (duration n) of
                        Number u \<Rightarrow>
                          (let noteEnd = time n + u
                           in if noteEnd > maxTime then noteEnd else maxTime)
                      | _ \<Rightarrow> maxTime)
      in schedule now ns (sources', maxTime'))"

datatype error = InvalidStateError

text \<open>
  \<open>s.stop()\<close> on an oscillator: the source expects it to raise on one that is already
  over, and wraps each call in \<open>try\<close> with an empty \<open>catch\<close>.
\<close>

definition osc_stop :: "voice \<Rightarrow> error + unit" where
  "osc_stop v = (if ended v then Inl InvalidStateError else Inr ())"

definition try_catch :: "error + unit \<Rightarrow> error + unit" where
  "try_catch r = (case r of Inl e \<Rightarrow> Inr () | Inr u \<Rightarrow> Inr u)"

fun forEach_stop :: "voice list \<Rightarrow> error + unit" where
  "forEach_stop [] = Inr ()"
| "forEach_stop (v # vs) =
     (case try_catch (osc_stop v) of Inl e \<Rightarrow> Inl e | Inr u \<Rightarrow> forEach_stop vs)"

text \<open>\<open>cancelAnimationFrame(id)\<close>: the browser drops the callback with that identifier.\<close>

definition cancelAnimationFrame :: "nat \<Rightarrow> editor \<Rightarrow> editor" where
  "cancelAnimationFrame fid s =
     (case frame s of
        Some (pending, totalDurationSeconds) \<Rightarrow> if pending = fid then s\<lparr>frame := None\<rparr> else s
      | None \<Rightarrow> s)"

text \<open>
  \<open>animationRef.current = requestAnimationFrame(animate)\<close> for an \<open>animate\<close> whose closure
  holds \<open>totalDurationSeconds\<close>.
\<close>

definition requestAnimationFrame :: "real \<Rightarrow> editor \<Rightarrow> editor" where
  "requestAnimationFrame totalDurationSeconds s =
     s\<lparr>animationRef := Some (rafNext s),
       frame := Some (rafNext s, totalDurationSeconds),
       rafNext := Suc (rafNext s)\<rparr>"

text \<open>
  The \<open>play\<close> callback, lines 145 to 183, called when the audio clock reads \<open>now\<close>. Its
  first branch stops a running playback; otherwise it schedules every note and starts the
  playhead. A stored frame identifier is truthy unless it is 0.
\<close>

definition play :: "real \<Rightarrow> editor \<Rightarrow> error + editor" where
  "play now s =
     (if isPlaying s then
        (let s1 = (case animationRef s of
                     Some fid \<Rightarrow> if fid \<noteq> 0 then cancelAnimationFrame fid s else s
                   | None \<Rightarrow> s)
         in case forEach_stop (activeSources s1) of
              Inl e \<Rightarrow> Inl e
            | Inr u \<Rightarrow> Inr (s1\<lparr>activeSources := [], isPlaying := False, playheadPos := 0\<rparr>))
      else
        (let s1 = s\<lparr>audioCtx := True, startTimeRef := now\<rparr>;
             (sources, maxTime) = schedule now (notes s1) (activeSources s1, 0);
             totalDurationSeconds = secondsOf (real_of_int maxTime);
             s2 = s1\<lparr>activeSources := sources, isPlaying := True\<rparr>
         in Inr (requestAnimationFrame totalDurationSeconds s2)))"

text \<open>
  \<open>animate\<close>, lines 172 to 181, run by the browser when the audio clock reads
  \<open>currentTime\<close>.
\<close>

definition animate :: "real \<Rightarrow> real \<Rightarrow> editor \<Rightarrow> editor" where
  "animate totalDurationSeconds currentTime s =
     (let elapsed = currentTime - startTimeRef s
      in if elapsed \<ge> totalDurationSeconds then s\<lparr>isPlaying := False, playheadPos := 0\<rparr>
         else requestAnimationFrame totalDurationSeconds
                (s\<lparr>playheadPos := elapsed * PIXELS_PER_SECOND\<rparr>))"

text \<open>One animation tick: the browser takes the pending callback, if any, and runs it.\<close>

definition tick :: "real \<Rightarrow> editor \<Rightarrow> editor" where
  "tick currentTime s =
     (case frame s of
        None \<Rightarrow> s
      | Some (fid, totalDurationSeconds) \<Rightarrow>
          animate totalDurationSeconds currentTime (s\<lparr>frame := None\<rparr>))"

text \<open>
  What an observer of a call of \<open>play\<close> sees of \<open>totalDurationSeconds\<close>: the value held
  by the closure of the \<open>animate\<close> callback that the call has queued.
\<close>

definition totalSeconds :: "error + editor \<Rightarrow> real option" where
  "totalSeconds r = (case r of Inl e \<Rightarrow> None | Inr s \<Rightarrow> map_option snd (frame s))"

section \<open>Pitch grid\<close>

lemma rows_roundtrip:
  "list_all (\<lambda>r. getRowFromPitch (getPitchFromRow r) = Some r) [0..84]"
  by code_simp

text \<open>
  Claim C1. For every row from 0 up to 84, the pitch name of the row parses back to the
  same row, as a number and not as \<open>NaN\<close>.
\<close>

theorem getRowFromPitch_getPitchFromRow:
  assumes "0 \<le> row" and "row < 85"
  shows "getRowFromPitch (getPitchFromRow row) = Some row"
proof -
  from assms have "row \<in> set [0..84]"
    by simp
  with rows_roundtrip show ?thesis
    unfolding list_all_iff by blast
qed

theorem getRowFromPitch_getPitchFromRow_witness:
  "(0::int) \<le> 48 \<and> (48::int) < 85 \<and> getRowFromPitch (getPitchFromRow 48) = Some 48"
proof -
  have lo: "(0::int) \<le> 48"
    by simp
  have hi: "(48::int) < 85"
    by simp
  have "getRowFromPitch (getPitchFromRow 48) = Some 48"
    by (rule getRowFromPitch_getPitchFromRow [OF lo hi])
  with lo hi show ?thesis
    by blast
qed

subsection \<open>What the pattern matches\<close>

lemma match_here_Some_iff:
  "match_here s \<noteq> None \<longleftrightarrow> (\<exists>g post. s = g @ post \<and> grammar g)"
proof
  assume "match_here s \<noteq> None"
  then show "\<exists>g post. s = g @ post \<and> grammar g"
  proof (induction s rule: match_here.induct)
    case (1 l a d rest)
    then consider "is_letter l \<and> is_accidental a \<and> is_digit d" | "is_letter l \<and> is_digit a"
      by (auto split: if_splits)
    then show ?case
    proof cases
      case 1
      then have "l # a # d # rest = [l, a, d] @ rest \<and> grammar [l, a, d]"
        by simp
      then show ?thesis
        by blast
    next
      case 2
      then have "l # a # d # rest = [l, a] @ (d # rest) \<and> grammar [l, a]"
        by simp
      then show ?thesis
        by blast
    qed
  next
    case (2 l d)
    then have "[l, d] = [l, d] @ [] \<and> grammar [l, d]"
      by (auto split: if_splits)
    then show ?case
      by blast
  qed simp_all
next
  assume "\<exists>g post. s = g @ post \<and> grammar g"
  then obtain g post where s: "s = g @ post" and g: "grammar g"
    by blast
  from g show "match_here s \<noteq> None"
    unfolding s by (induction g rule: grammar.induct) (cases post; auto)+
qed

lemma occurrence_Cons:
  "(\<exists>pre g post. c # cs = pre @ g @ post \<and> grammar g) \<longleftrightarrow>
   (\<exists>g post. c # cs = g @ post \<and> grammar g) \<or> (\<exists>pre g post. cs = pre @ g @ post \<and> grammar g)"
  (is "?L \<longleftrightarrow> ?H \<or> ?T")
proof
  assume ?L
  then obtain pre g post where eq: "c # cs = pre @ g @ post" and g: "grammar g"
    by blast
  show "?H \<or> ?T"
  proof (cases pre)
    case Nil
    with eq g show ?thesis
      by auto
  next
    case (Cons a pre')
    with eq have "cs = pre' @ g @ post"
      by simp
    with g show ?thesis
      by blast
  qed
next
  assume "?H \<or> ?T"
  then show ?L
  proof
    assume ?H
    then obtain g post where "c # cs = [] @ g @ post" and "grammar g"
      by auto
    then show ?L
      by blast
  next
    assume ?T
    then obtain pre g post where "c # cs = (c # pre) @ g @ post" and "grammar g"
      by auto
    then show ?L
      by blast
  qed
qed

text \<open>
  The search fails exactly on the strings in which no word of the grammar occurs.
\<close>

lemma regex_match_None_iff:
  "regex_match p = None \<longleftrightarrow> \<not> (\<exists>pre g post. p = pre @ g @ post \<and> grammar g)"
proof (induction p)
  case Nil
  then show ?case
    by (auto elim: grammar.elims)
next
  case (Cons c cs)
  have "regex_match (c # cs) = None \<longleftrightarrow> match_here (c # cs) = None \<and> regex_match cs = None"
    by (simp split: option.split)
  also have "\<dots> \<longleftrightarrow> \<not> (\<exists>g post. c # cs = g @ post \<and> grammar g) \<and>
      \<not> (\<exists>pre g post. cs = pre @ g @ post \<and> grammar g)"
    using match_here_Some_iff [of "c # cs"] Cons.IH by blast
  also have "\<dots> \<longleftrightarrow> \<not> (\<exists>pre g post. c # cs = pre @ g @ post \<and> grammar g)"
    unfolding occurrence_Cons by blast
  finally show ?case .
qed

lemma regex_match_Z9: "regex_match ''Z9'' = None"
  by (simp add: is_letter_def)

text \<open>
  Claim C4, as stated, fails: the string \<open>xC4\<close> is not a word of the pitch grammar, a
  letter, an optional accidental and one octave digit, yet the unanchored pattern finds
  \<open>C4\<close> inside it and \<open>getRowFromPitch\<close> returns row 48, not row 0.
\<close>

theorem non_grammar_string_not_row_0:
  "\<not> grammar ''xC4'' \<and> getRowFromPitch ''xC4'' = Some 48 \<and> getRowFromPitch ''xC4'' \<noteq> Some 0"
  by (simp add: getRowFromPitch_def is_letter_def is_digit_def is_accidental_def
      toUpperCase_def upper_char_def accidentalMap_def PITCH_MAP_def parseInt_def START_MIDI_def)

text \<open>
  Claim C4, amended. For every string in which no word of the pitch grammar occurs
  anywhere, which is when the unanchored pattern finds no match, \<open>getRowFromPitch\<close>
  returns row 0 and \<open>getFrequencyFromPitch\<close> returns the frequency of MIDI note 108,
  which is positive.
\<close>

theorem unmatched_pitch_sounds_C8:
  assumes "\<not> (\<exists>pre g post. p = pre @ g @ post \<and> grammar g)"
  shows "getRowFromPitch p = Some 0 \<and>
         getFrequencyFromPitch p = Some (440 * 2 powr ((108 - 69) / 12)) \<and>
         (0::real) < 440 * 2 powr ((108 - 69) / 12)"
proof -
  from assms have "regex_match p = None"
    by (rule iffD2 [OF regex_match_None_iff])
  then show ?thesis
    by (simp add: getFrequencyFromPitch_def getRowFromPitch_def START_MIDI_def)
qed

theorem unmatched_pitch_sounds_C8_witness:
  "\<not> (\<exists>pre g post. ''Z9'' = pre @ g @ post \<and> grammar g) \<and>
   getRowFromPitch ''Z9'' = Some 0 \<and>
   getFrequencyFromPitch ''Z9'' = Some (440 * 2 powr ((108 - 69) / 12)) \<and>
   (0::real) < 440 * 2 powr ((108 - 69) / 12)"
proof -
  have no: "\<not> (\<exists>pre g post. ''Z9'' = pre @ g @ post \<and> grammar g)"
    by (rule iffD1 [OF regex_match_None_iff regex_match_Z9])
  show ?thesis
    by (rule conjI, rule no, rule unmatched_pitch_sounds_C8 [OF no])
qed

subsection \<open>Flat spellings\<close>

lemma getRowFromPitch_Cis4: "getRowFromPitch ''C#4'' = Some 47"
  by (simp add: getRowFromPitch_def is_letter_def is_digit_def is_accidental_def
      toUpperCase_def upper_char_def accidentalMap_def PITCH_MAP_def parseInt_def START_MIDI_def)

text \<open>
  Claim C5. For each of the five flat spellings that the parser rewrites and for every
  octave digit, the flat and the sharp spelling parse to one and the same row, a number.
\<close>

theorem flat_row_eq_sharp_row:
  assumes "(flat, sharp) \<in> set [(''Db'', ''C#''), (''Eb'', ''D#''), (''Gb'', ''F#''),
                                (''Ab'', ''G#''), (''Bb'', ''A#'')]"
    and "is_digit d"
  shows "\<exists>r. getRowFromPitch (flat @ [d]) = Some r \<and> getRowFromPitch (sharp @ [d]) = Some r"
  using assms
  by (auto simp: getRowFromPitch_def is_letter_def is_digit_def is_accidental_def
      toUpperCase_def upper_char_def accidentalMap_def PITCH_MAP_def)

theorem flat_row_eq_sharp_row_witness:
  "getRowFromPitch ''Db4'' = Some 47 \<and> getRowFromPitch ''C#4'' = Some 47"
proof -
  have pair: "(''Db'', ''C#'') \<in> set [(''Db'', ''C#''), (''Eb'', ''D#''), (''Gb'', ''F#''),
                                       (''Ab'', ''G#''), (''Bb'', ''A#'')]"
    by simp
  have digit: "is_digit CHR ''4''"
    by (simp add: is_digit_def)
  from flat_row_eq_sharp_row [OF pair digit]
  obtain r where flat: "getRowFromPitch ''Db4'' = Some r" and sharp: "getRowFromPitch ''C#4'' = Some r"
    by auto
  from sharp have "r = 47"
    by (simp add: getRowFromPitch_Cis4)
  with flat sharp show ?thesis
    by simp
qed

section \<open>Durations\<close>

lemma durationUnits_table:
  "durationUnits ''whole'' = Number 16"
  "durationUnits ''half'' = Number 8"
  "durationUnits ''quarter'' = Number 4"
  "durationUnits ''eighth'' = Number 2"
  "durationUnits ''bogus'' = Number 4"
  by (simp_all add: durationUnits_def DURATION_MAP_def Object_prototype_def)

text \<open>
  A name that is neither a key of the table nor a member inherited by it falls back to
  the quarter note.
\<close>

lemma durationUnits_default:
  assumes "d \<notin> set [''whole'', ''half'', ''quarter'', ''eighth'']"
    and "d \<notin> set Object_prototype"
  shows "durationUnits d = Number 4"
  using assms by (simp add: durationUnits_def DURATION_MAP_def)

text \<open>
  Claim C8. The table gives 16, 8, 4 and 2 for the four names, and the fallback gives 4
  for a name such as \<open>bogus\<close>. It does not give 4 for every other name: the lookup of
  \<open>constructor\<close> finds the member that the table inherits, which is truthy, so the
  fallback is not taken and the result is not a number.
\<close>

theorem durationUnits_constructor:
  "durationUnits ''constructor'' = Inherited \<and> durationUnits ''constructor'' \<noteq> Number 4"
  by (simp add: durationUnits_def DURATION_MAP_def Object_prototype_def)

section \<open>Editing the note list\<close>

lemma findIndex_None: "findIndex P xs = None \<longleftrightarrow> (\<forall>x \<in> set xs. \<not> P x)"
  by (induction xs) auto

lemma findIndex_Some:
  "findIndex P xs = Some i \<Longrightarrow>
     i < length xs \<and> P (xs ! i) \<and> (\<forall>y \<in> set (take i xs). \<not> P y)"
proof (induction xs arbitrary: i)
  case Nil
  then show ?case
    by simp
next
  case (Cons x xs)
  show ?case
  proof (cases "P x")
    case True
    with Cons.prems show ?thesis
      by simp
  next
    case False
    with Cons.prems obtain j where j: "findIndex P xs = Some j" and i: "i = Suc j"
      by auto
    from Cons.IH [OF j] False show ?thesis
      unfolding i by simp
  qed
qed

text \<open>
  Claim C6. If some note has the given pitch and time, the list splits around the first
  such note (no note before it has that pitch and time) and \<open>toggle\<close> returns the part
  before followed by the part after, whatever the duration and instrument of the note
  removed. If no note has that pitch and time, \<open>toggle\<close> returns the list followed by a
  new note of duration \<open>quarter\<close> and instrument \<open>Lead\<close>.
\<close>

theorem toggle_removes_first_or_appends:
  "((\<exists>n \<in> set ns. pitch n = p \<and> time n = t) \<longrightarrow>
      (\<exists>pre x post. ns = pre @ x # post \<and>
          (\<forall>y \<in> set pre. \<not> (pitch y = p \<and> time y = t)) \<and>
          pitch x = p \<and> time x = t \<and> toggle p t ns = pre @ post)) \<and>
   (\<not> (\<exists>n \<in> set ns. pitch n = p \<and> time n = t) \<longrightarrow>
      toggle p t ns =
        ns @ [\<lparr>pitch = p, duration = ''quarter'', instrument = ''Lead'', time = t\<rparr>])"
proof (intro conjI impI)
  let ?P = "\<lambda>n. pitch n = p \<and> time n = t"
  assume "\<exists>n \<in> set ns. pitch n = p \<and> time n = t"
  then have "findIndex ?P ns \<noteq> None"
    by (simp add: findIndex_None)
  then obtain i where i: "findIndex ?P ns = Some i"
    by blast
  from findIndex_Some [OF i]
  have len: "i < length ns" and hit: "?P (ns ! i)" and miss: "\<forall>y \<in> set (take i ns). \<not> ?P y"
    by blast+
  have "ns = take i ns @ ns ! i # drop (Suc i) ns"
    using len by (rule id_take_nth_drop)
  moreover have "toggle p t ns = take i ns @ drop (Suc i) ns"
    by (simp add: toggle_def i splice1_def)
  ultimately show "\<exists>pre x post. ns = pre @ x # post \<and>
      (\<forall>y \<in> set pre. \<not> (pitch y = p \<and> time y = t)) \<and>
      pitch x = p \<and> time x = t \<and> toggle p t ns = pre @ post"
    using hit miss by blast
next
  assume "\<not> (\<exists>n \<in> set ns. pitch n = p \<and> time n = t)"
  then have "findIndex (\<lambda>n. pitch n = p \<and> time n = t) ns = None"
    by (simp add: findIndex_None)
  then show "toggle p t ns =
      ns @ [\<lparr>pitch = p, duration = ''quarter'', instrument = ''Lead'', time = t\<rparr>]"
    by (simp add: toggle_def)
qed

theorem toggle_removes_first_or_appends_witness:
  "(\<exists>n \<in> set [\<lparr>pitch = ''E4'', duration = ''half'', instrument = ''Bass'', time = 0\<rparr>,
               \<lparr>pitch = ''C4'', duration = ''whole'', instrument = ''Bass'', time = 0\<rparr>,
               \<lparr>pitch = ''C4'', duration = ''quarter'', instrument = ''Lead'', time = 0\<rparr>].
      pitch n = ''C4'' \<and> time n = 0) \<and>
   toggle ''C4'' 0 [\<lparr>pitch = ''E4'', duration = ''half'', instrument = ''Bass'', time = 0\<rparr>,
                    \<lparr>pitch = ''C4'', duration = ''whole'', instrument = ''Bass'', time = 0\<rparr>,
                    \<lparr>pitch = ''C4'', duration = ''quarter'', instrument = ''Lead'', time = 0\<rparr>] =
     [\<lparr>pitch = ''E4'', duration = ''half'', instrument = ''Bass'', time = 0\<rparr>,
      \<lparr>pitch = ''C4'', duration = ''quarter'', instrument = ''Lead'', time = 0\<rparr>] \<and>
   \<not> (\<exists>n \<in> set [\<lparr>pitch = ''E4'', duration = ''half'', instrument = ''Bass'', time = 0\<rparr>].
      pitch n = ''C4'' \<and> time n = 0) \<and>
   toggle ''C4'' 0 [\<lparr>pitch = ''E4'', duration = ''half'', instrument = ''Bass'', time = 0\<rparr>] =
     [\<lparr>pitch = ''E4'', duration = ''half'', instrument = ''Bass'', time = 0\<rparr>,
      \<lparr>pitch = ''C4'', duration = ''quarter'', instrument = ''Lead'', time = 0\<rparr>]"
  (is "?there \<and> ?removed \<and> ?absent \<and> ?appended")
proof -
  let ?e = "\<lparr>pitch = ''E4'', duration = ''half'', instrument = ''Bass'', time = 0\<rparr>"
  let ?w = "\<lparr>pitch = ''C4'', duration = ''whole'', instrument = ''Bass'', time = 0\<rparr>"
  let ?q = "\<lparr>pitch = ''C4'', duration = ''quarter'', instrument = ''Lead'', time = 0\<rparr>"
  have there: ?there
    by simp
  from toggle_removes_first_or_appends [of "[?e, ?w, ?q]" "''C4''" 0] there
  obtain pre x post where split: "[?e, ?w, ?q] = pre @ x # post"
    and miss: "\<forall>y \<in> set pre. \<not> (pitch y = ''C4'' \<and> time y = 0)"
    and hit: "pitch x = ''C4'' \<and> time x = 0"
    and res: "toggle ''C4'' 0 [?e, ?w, ?q] = pre @ post"
    by blast
  from split miss hit have "pre = [?e] \<and> post = [?q]"
    by (auto simp: append_eq_Cons_conv Cons_eq_append_conv)
  with res have removed: ?removed
    by simp
  have absent: ?absent
    by simp
  from toggle_removes_first_or_appends [of "[?e]" "''C4''" 0] absent
  have "toggle ''C4'' 0 [?e] = [?e] @ [?q]"
    by blast
  then have appended: ?appended
    by simp
  show ?thesis
    by (intro conjI) (rule there, rule removed, rule absent, rule appended)
qed

lemma getPitchFromRow_48: "getPitchFromRow 48 = ''C4''"
  by code_simp

text \<open>
  Claim C7. Two toggles of C4 at time 0 on the empty list give the empty list again; so
  do two clicks on the cell of row 48 and column 0 in an editor whose list is empty.
\<close>

theorem toggle_twice_from_empty:
  "toggle ''C4'' 0 (toggle ''C4'' 0 []) = [] \<and>
   notes (handleCanvasClick (handleCanvasClick (handleMouseMove 10 965 (initial [])))) = []"
  by (simp add: handleCanvasClick_def handleMouseMove_def initial_def ROW_HEIGHT_def
      PIXELS_PER_UNIT_def TOTAL_ROWS_def getPitchFromRow_48 toggle_def splice1_def)

section \<open>Playback\<close>

lemma getFrequencyFromPitch_Z9: "getFrequencyFromPitch ''Z9'' = Some (440 * 2 powr (39 / 12))"
  by (simp add: getFrequencyFromPitch_def getRowFromPitch_def is_letter_def START_MIDI_def)

lemma getFrequencyFromPitch_C4: "getFrequencyFromPitch ''C4'' = Some (440 * 2 powr (- 9 / 12))"
  by (simp add: getFrequencyFromPitch_def getRowFromPitch_def is_letter_def is_digit_def
      is_accidental_def START_MIDI_def toUpperCase_def upper_char_def accidentalMap_def
      PITCH_MAP_def parseInt_def)

lemma durationUnits_quarter: "durationUnits ''quarter'' = Number 4"
  by (simp add: durationUnits_def DURATION_MAP_def)

text \<open>
  A frequency is positive or \<open>NaN\<close>, so the guard of \<open>playNote\<close> on a frequency of 0 or
  less never fires: every call sets up one more oscillator.
\<close>

lemma playNote_always_voices: "length (playNote n startTime sources) = Suc (length sources)"
  by (simp add: playNote_def getFrequencyFromPitch_def Let_def split: option.split)

text \<open>
  Claim C2. The pitch \<open>Z9\<close> does not parse, yet its frequency is that of MIDI note 108 and
  not 0, so the guard on a frequency of 0 or less in \<open>playNote\<close> does not fire: playback of
  a \<open>Z9\<close> note followed by a C4 note sets up two oscillators, the first one for \<open>Z9\<close>.
\<close>

theorem invalid_pitch_is_voiced:
  "getFrequencyFromPitch ''Z9'' = Some (440 * 2 powr (39 / 12)) \<and>
   (0::real) < 440 * 2 powr (39 / 12) \<and>
   play 0 (initial [\<lparr>pitch = ''Z9'', duration = ''quarter'', instrument = ''Lead'', time = 0\<rparr>,
                    \<lparr>pitch = ''C4'', duration = ''quarter'', instrument = ''Lead'', time = 4\<rparr>]) =
     Inr \<lparr>notes = [\<lparr>pitch = ''Z9'', duration = ''quarter'', instrument = ''Lead'', time = 0\<rparr>,
                   \<lparr>pitch = ''C4'', duration = ''quarter'', instrument = ''Lead'', time = 4\<rparr>],
          isPlaying = True, playheadPos = 0, hoveredCell = None, audioCtx = True,
          animationRef = Some 1, startTimeRef = 0,
          activeSources =
            [\<lparr>oscType = Sawtooth, frequency = Some (440 * 2 powr (39 / 12)),
              startAt = 0, stopAt = Some (1 / 2), ended = False\<rparr>,
             \<lparr>oscType = Sawtooth, frequency = Some (440 * 2 powr (- 9 / 12)),
              startAt = 1 / 2, stopAt = Some 1, ended = False\<rparr>],
          frame = Some (1, 1), rafNext = 2\<rparr>"
  by (simp add: play_def Let_def initial_def requestAnimationFrame_def secondsOf_def
      durationUnits_quarter getFrequencyFromPitch_Z9 getFrequencyFromPitch_C4 playNote_def
      SECONDS_PER_BEAT_def TEMPO_BPM_def QUARTER_DURATION_def toLowerCase_def lower_char_def)

text \<open>
  Claim C3, as stated, fails: for the two quarter notes at times 0 and 8 the total is not
  3 seconds.
\<close>

theorem total_seconds_not_three:
  "totalSeconds
     (play 0 (initial [\<lparr>pitch = ''C4'', duration = ''quarter'', instrument = ''Lead'', time = 0\<rparr>,
                       \<lparr>pitch = ''E4'', duration = ''quarter'', instrument = ''Lead'', time = 8\<rparr>]))
     = Some (3 / 2) \<and>
   totalSeconds
     (play 0 (initial [\<lparr>pitch = ''C4'', duration = ''quarter'', instrument = ''Lead'', time = 0\<rparr>,
                       \<lparr>pitch = ''E4'', duration = ''quarter'', instrument = ''Lead'', time = 8\<rparr>]))
     \<noteq> Some 3"
  by (simp add: play_def Let_def initial_def totalSeconds_def requestAnimationFrame_def
      secondsOf_def durationUnits_quarter SECONDS_PER_BEAT_def TEMPO_BPM_def split: prod.split)

text \<open>
  Claim C3, amended. Starting playback of a C4 quarter note at time 0 and an E4 quarter
  note at time 8, whatever their instruments and whatever the audio clock reads, gives a
  total of \<open>secondsOf (8 + 4)\<close>, which at 120 beats per minute is 1.5 seconds.
\<close>

theorem total_seconds_two_quarters:
  assumes "\<not> isPlaying s"
    and "notes s = [\<lparr>pitch = ''C4'', duration = ''quarter'', instrument = i1, time = 0\<rparr>,
                    \<lparr>pitch = ''E4'', duration = ''quarter'', instrument = i2, time = 8\<rparr>]"
  shows "totalSeconds (play now s) = Some (secondsOf (8 + 4)) \<and> secondsOf (8 + 4) = 3 / 2"
  using assms
  by (simp add: play_def Let_def totalSeconds_def requestAnimationFrame_def secondsOf_def
      durationUnits_quarter SECONDS_PER_BEAT_def TEMPO_BPM_def split: prod.split)

theorem total_seconds_two_quarters_witness:
  "\<not> isPlaying (initial [\<lparr>pitch = ''C4'', duration = ''quarter'', instrument = ''Lead'', time = 0\<rparr>,
                         \<lparr>pitch = ''E4'', duration = ''quarter'', instrument = ''Lead'', time = 8\<rparr>]) \<and>
   totalSeconds
     (play 0 (initial [\<lparr>pitch = ''C4'', duration = ''quarter'', instrument = ''Lead'', time = 0\<rparr>,
                       \<lparr>pitch = ''E4'', duration = ''quarter'', instrument = ''Lead'', time = 8\<rparr>]))
     = Some (secondsOf (8 + 4)) \<and>
   secondsOf (8 + 4) = 3 / 2"
proof -
  let ?ns = "[\<lparr>pitch = ''C4'', duration = ''quarter'', instrument = ''Lead'', time = 0\<rparr>,
              \<lparr>pitch = ''E4'', duration = ''quarter'', instrument = ''Lead'', time = 8\<rparr>]"
  have idle: "\<not> isPlaying (initial ?ns)"
    by (simp add: initial_def)
  have list: "notes (initial ?ns) = ?ns"
    by (simp add: initial_def)
  show ?thesis
    by (rule conjI, rule idle, rule total_seconds_two_quarters [OF idle list])
qed

lemma forEach_stop_never_raises: "forEach_stop vs = Inr ()"
  by (induction vs) (simp_all add: try_catch_def osc_stop_def)

text \<open>
  Claim C9, as stated, fails: the only transport command is \<open>play\<close>, and when no playback
  is active it does not stop anything. It starts playback: afterwards \<open>isPlaying\<close> is true
  and an oscillator is live.
\<close>

theorem play_when_idle_starts:
  "\<not> isPlaying (initial [\<lparr>pitch = ''C4'', duration = ''quarter'', instrument = ''Lead'', time = 0\<rparr>]) \<and>
   play 0 (initial [\<lparr>pitch = ''C4'', duration = ''quarter'', instrument = ''Lead'', time = 0\<rparr>]) =
     Inr \<lparr>notes = [\<lparr>pitch = ''C4'', duration = ''quarter'', instrument = ''Lead'', time = 0\<rparr>],
          isPlaying = True, playheadPos = 0, hoveredCell = None, audioCtx = True,
          animationRef = Some 1, startTimeRef = 0,
          activeSources =
            [\<lparr>oscType = Sawtooth, frequency = Some (440 * 2 powr (- 9 / 12)),
              startAt = 0, stopAt = Some (1 / 2), ended = False\<rparr>],
          frame = Some (1, 1 / 2), rafNext = 2\<rparr>"
  by (simp add: play_def Let_def initial_def requestAnimationFrame_def secondsOf_def
      durationUnits_quarter getFrequencyFromPitch_C4 playNote_def SECONDS_PER_BEAT_def
      TEMPO_BPM_def QUARTER_DURATION_def toLowerCase_def lower_char_def)

text \<open>
  Claim C9, amended. While playback is active, \<open>play\<close> never raises, also when some of the
  oscillators are already over and their \<open>stop\<close> raises; afterwards no oscillator is held,
  \<open>isPlaying\<close> is false, the playhead is at 0 and the note list is as before.
\<close>

theorem play_when_playing_stops:
  assumes "isPlaying s"
  shows "\<exists>s'. play now s = Inr s' \<and> activeSources s' = [] \<and> \<not> isPlaying s' \<and>
           playheadPos s' = 0 \<and> notes s' = notes s"
  using assms
  by (simp add: play_def Let_def forEach_stop_never_raises cancelAnimationFrame_def
      split: option.split prod.split)

theorem play_when_playing_stops_witness:
  "isPlaying ((initial [])\<lparr>isPlaying := True,
       activeSources := [\<lparr>oscType = Sawtooth, frequency = Some 440, startAt = 0,
                          stopAt = Some (1 / 2), ended = True\<rparr>,
                         \<lparr>oscType = Triangle, frequency = Some 220, startAt = 1,
                          stopAt = Some 2, ended = False\<rparr>]\<rparr>) \<and>
   (\<exists>s'. play 1 ((initial [])\<lparr>isPlaying := True,
       activeSources := [\<lparr>oscType = Sawtooth, frequency = Some 440, startAt = 0,
                          stopAt = Some (1 / 2), ended = True\<rparr>,
                         \<lparr>oscType = Triangle, frequency = Some 220, startAt = 1,
                          stopAt = Some 2, ended = False\<rparr>]\<rparr>) = Inr s' \<and>
      activeSources s' = [] \<and> \<not> isPlaying s' \<and> playheadPos s' = 0 \<and>
      notes s' = notes ((initial [])\<lparr>isPlaying := True,
       activeSources := [\<lparr>oscType = Sawtooth, frequency = Some 440, startAt = 0,
                          stopAt = Some (1 / 2), ended = True\<rparr>,
                         \<lparr>oscType = Triangle, frequency = Some 220, startAt = 1,
                          stopAt = Some 2, ended = False\<rparr>]\<rparr>))"
  (is "isPlaying ?s \<and> ?stopped")
proof -
  have playing: "isPlaying ?s"
    by simp
  show ?thesis
    by (rule conjI, rule playing, rule play_when_playing_stops [OF playing])
qed

text \<open>
  Claim C10. Starting playback of an empty note list gives a total of 0 seconds, and the
  first animation tick, at a clock reading that is not before the start, ends playback
  with the playhead at 0.
\<close>

theorem empty_sequence_ends_on_first_tick:
  assumes "\<not> isPlaying s" and "notes s = []" and "now \<le> t"
  shows "\<exists>s1. play now s = Inr s1 \<and> isPlaying s1 \<and> totalSeconds (play now s) = Some 0 \<and>
           \<not> isPlaying (tick t s1) \<and> playheadPos (tick t s1) = 0"
  using assms
  by (simp add: play_def Let_def totalSeconds_def requestAnimationFrame_def secondsOf_def
      tick_def animate_def)

theorem empty_sequence_ends_on_first_tick_witness:
  "\<not> isPlaying (initial []) \<and> notes (initial []) = [] \<and> (0::real) \<le> 0 \<and>
   (\<exists>s1. play 0 (initial []) = Inr s1 \<and> isPlaying s1 \<and>
      totalSeconds (play 0 (initial [])) = Some 0 \<and>
      \<not> isPlaying (tick 0 s1) \<and> playheadPos (tick 0 s1) = 0)"
proof -
  have idle: "\<not> isPlaying (initial [])"
    by (simp add: initial_def)
  have empty: "notes (initial []) = []"
    by (simp add: initial_def)
  have clock: "(0::real) \<le> 0"
    by simp
  show ?thesis
    by (intro conjI)
      (rule idle, rule empty, rule clock,
        rule empty_sequence_ends_on_first_tick [OF idle empty clock])
qed

end
